theory Spec2Isabelle
  imports Main "HOL-Library.Word"
begin

unbundle bit_operations_syntax

section \<open>Values, errors and the world outside the services\<close>

text \<open>
  The services of \<^verbatim>\<open>enhanced-ai.service.ts\<close> are written over JavaScript values of type
  \<^verbatim>\<open>any\<close>. A value is modelled as a tree; a \<^verbatim>\<open>Buffer\<close> or \<^verbatim>\<open>Uint8Array\<close> is a list of
  bytes, a string is a list of 8-bit characters (its UTF-8 bytes), a number that the code
  handles (timestamps, counters) is an integer, one that a double holds exactly. Of a PDF
  document the model keeps what the services put into it: the number of pages, the texts
  drawn and the files attached.
\<close>

type_synonym byte = "8 word"
type_synonym bytes = "byte list"

record pdf =
  pages :: nat
  texts :: "string list"
  attachments :: "(string \<times> bytes) list"

datatype jsval =
    JUndef
  | JNull
  | JBool bool
  | JNum int
  | JStr string
  | JBytes bytes
  | JArr "jsval list"
  | JObj "(string \<times> jsval) list"

datatype error =
    Error string
  | TypeError string
  | RangeError string
  | SyntaxError string

definition bindE :: "error + 'a \<Rightarrow> ('a \<Rightarrow> error + 'b) \<Rightarrow> error + 'b" where
  \<comment> \<open>sequencing of two steps, the second skipped when the first throws\<close>
  "bindE m f = (case m of Inl e \<Rightarrow> Inl e | Inr x \<Rightarrow> f x)"

definition get_prop :: "jsval \<Rightarrow> string \<Rightarrow> error + jsval" where
  \<comment> \<open>\<^verbatim>\<open>v.k\<close>: a TypeError on \<^verbatim>\<open>undefined\<close> and \<^verbatim>\<open>null\<close>, \<^verbatim>\<open>undefined\<close> for a missing key\<close>
  "get_prop v k =
     (case v of
        JUndef \<Rightarrow> Inl (TypeError ''Cannot read properties of undefined'')
      | JNull \<Rightarrow> Inl (TypeError ''Cannot read properties of null'')
      | JObj fs \<Rightarrow> Inr (case map_of fs k of None \<Rightarrow> JUndef | Some x \<Rightarrow> x)
      | _ \<Rightarrow> Inr JUndef)"

definition truthy :: "jsval \<Rightarrow> bool" where
  "truthy v =
     (case v of
        JUndef \<Rightarrow> False
      | JNull \<Rightarrow> False
      | JBool b \<Rightarrow> b
      | JNum n \<Rightarrow> n \<noteq> 0
      | JStr s \<Rightarrow> s \<noteq> []
      | _ \<Rightarrow> True)"

definition bytes_of_string :: "string \<Rightarrow> bytes" where
  "bytes_of_string s = map (\<lambda>c. of_nat (of_char c)) s"

definition bytes_like :: "jsval \<Rightarrow> error + bytes" where
  \<comment> \<open>the arguments Node's crypto functions accept as data: a string or a buffer\<close>
  "bytes_like v =
     (case v of
        JStr s \<Rightarrow> Inr (bytes_of_string s)
      | JBytes bs \<Rightarrow> Inr bs
      | _ \<Rightarrow> Inl (TypeError ''The data argument must be of type string or Buffer''))"

subsection \<open>Randomness and the clock\<close>

text \<open>
  \<^verbatim>\<open>crypto.randomBytes\<close> and \<^verbatim>\<open>Date.now()\<close> read the world: an endless supply of random
  bytes and the sequence of clock readings (milliseconds), each consumed from the front.
  The world also has an external anchoring backend, which is reachable or not; no function
  of the source reads that.
\<close>

record world =
  rnd :: "nat \<Rightarrow> byte"
  clock :: "nat \<Rightarrow> int"
  anchor_backend_up :: bool

definition randomBytes :: "nat \<Rightarrow> world \<Rightarrow> bytes \<times> world" where
  "randomBytes n w = (map (rnd w) [0..<n], w\<lparr>rnd := \<lambda>i. rnd w (i + n)\<rparr>)"

definition Date_now :: "world \<Rightarrow> int \<times> world" where
  "Date_now w = (clock w 0, w\<lparr>clock := \<lambda>i. clock w (Suc i)\<rparr>)"

subsection \<open>The collaborators that are not in the source file\<close>

text \<open>
  The libraries (\<^verbatim>\<open>crypto\<close>, \<^verbatim>\<open>qrcode\<close>, \<^verbatim>\<open>sharp\<close>, \<^verbatim>\<open>pdf-lib\<close>, \<^verbatim>\<open>JSON\<close>), the signer
  returned by \<^verbatim>\<open>initializeDocumentSecurity()\<close> and the population-register client are
  parameters of the model: every theorem holds for all of them. \<^verbatim>\<open>gcm_ctr\<close> is the
  AES-256-GCM keystream transformation (the same for both directions) and \<^verbatim>\<open>gcm_tag\<close> the
  tag of a ciphertext; \<^verbatim>\<open>utf8_decode\<close> is \<^verbatim>\<open>Buffer.toString()\<close>, which replaces invalid
  sequences; \<^verbatim>\<open>Number_toString\<close> is the text of a number of magnitude 1e21 or more,
  which JavaScript prints with an exponent.
\<close>

record env =
  sha256 :: "bytes \<Rightarrow> bytes"
  gcm_ctr :: "bytes \<Rightarrow> bytes \<Rightarrow> bytes \<Rightarrow> bytes"
  gcm_tag :: "bytes \<Rightarrow> bytes \<Rightarrow> bytes \<Rightarrow> bytes"
  publicEncrypt :: "string \<Rightarrow> bytes \<Rightarrow> error + bytes"
  privateDecrypt :: "string \<Rightarrow> jsval \<Rightarrow> error + bytes"
  privateEncrypt :: "string \<Rightarrow> bytes \<Rightarrow> error + bytes"
  security_sign :: "jsval \<Rightarrow> error + jsval"
  security_verify :: "jsval \<Rightarrow> jsval \<Rightarrow> error + jsval"
  JSON_stringify :: "jsval \<Rightarrow> jsval"
  JSON_parse :: "string \<Rightarrow> error + jsval"
  QRCode_toBuffer :: "jsval \<Rightarrow> error + bytes"
  sharp_toBuffer :: "string \<Rightarrow> error + bytes"
  dha_get :: "string \<Rightarrow> error + jsval"
  toISOString :: "int \<Rightarrow> string"
  pdf_save :: "pdf \<Rightarrow> bytes"
  utf8_decode :: "bytes \<Rightarrow> string"
  Number_toString :: "int \<Rightarrow> string"

record serviceConfig =
  pki_privateKey :: string
  pki_publicKey :: string
  security_biometric :: string

subsection \<open>Decimal and hexadecimal text\<close>

definition digit_char :: "nat \<Rightarrow> char" where
  "digit_char d = char_of (of_char CHR ''0'' + d)"

fun show_nat :: "nat \<Rightarrow> string" where
  "show_nat n = (if n < 10 then [digit_char n] else show_nat (n div 10) @ [digit_char (n mod 10)])"

definition show_int :: "int \<Rightarrow> string" where
  "show_int i = (if i < 0 then CHR ''-'' # show_nat (nat (- i)) else show_nat (nat i))"

fun join_commas :: "string list \<Rightarrow> string" where
  "join_commas [] = []"
| "join_commas [s] = s"
| "join_commas (s # t # ss) = s @ '','' @ join_commas (t # ss)"

fun js_String :: "env \<Rightarrow> jsval \<Rightarrow> string" where
  \<comment> \<open>the string a template literal \<^verbatim>\<open>${v}\<close> inserts\<close>
  "js_String e JUndef = ''undefined''"
| "js_String e JNull = ''null''"
| "js_String e (JBool b) = (if b then ''true'' else ''false'')"
| "js_String e (JNum n) = (if \<bar>n\<bar> < 10 ^ 21 then show_int n else Number_toString e n)"
| "js_String e (JStr s) = s"
| "js_String e (JBytes bs) = utf8_decode e bs"
| "js_String e (JArr vs) =
     join_commas (map (\<lambda>v. case v of JUndef \<Rightarrow> [] | JNull \<Rightarrow> [] | _ \<Rightarrow> js_String e v) vs)"
| "js_String e (JObj fs) = ''[object Object]''"

definition hex_char :: "nat \<Rightarrow> char" where
  "hex_char d = (if d < 10 then digit_char d else char_of (of_char CHR ''a'' + (d - 10)))"

definition to_hex :: "bytes \<Rightarrow> string" where
  \<comment> \<open>\<^verbatim>\<open>digest('hex')\<close>: two lower-case digits for each byte\<close>
  "to_hex bs = concat (map (\<lambda>b. [hex_char (unat b div 16), hex_char (unat b mod 16)]) bs)"

definition hex_val :: "char \<Rightarrow> nat option" where
  "hex_val c =
     (let n = of_char c in
      if of_char CHR ''0'' \<le> n \<and> n \<le> of_char CHR ''9'' then Some (n - of_char CHR ''0'')
      else if of_char CHR ''a'' \<le> n \<and> n \<le> of_char CHR ''f'' then Some (n - of_char CHR ''a'' + 10)
      else if of_char CHR ''A'' \<le> n \<and> n \<le> of_char CHR ''F'' then Some (n - of_char CHR ''A'' + 10)
      else None)"

fun from_hex :: "string \<Rightarrow> bytes" where
  \<comment> \<open>\<^verbatim>\<open>Buffer.from(s, 'hex')\<close>: decoding stops at the first pair that is not hexadecimal\<close>
  "from_hex (a # b # rest) =
     (case (hex_val a, hex_val b) of
        (Some x, Some y) \<Rightarrow> of_nat (16 * x + y) # from_hex rest
      | _ \<Rightarrow> [])"
| "from_hex _ = []"

subsection \<open>Node's AES-256-GCM cipher objects\<close>

text \<open>
  \<^verbatim>\<open>createCipheriv('aes-256-gcm', key, iv)\<close> wants a non-empty IV and a 32-byte key.
  \<^verbatim>\<open>update\<close> transforms the data, \<^verbatim>\<open>final\<close> adds nothing in this mode, and
  \<^verbatim>\<open>getAuthTag\<close> gives the tag of what was encrypted. On the decrypting side
  \<^verbatim>\<open>final\<close> throws unless a tag was passed with \<^verbatim>\<open>setAuthTag\<close> and it is the tag of the
  ciphertext that was fed in.
\<close>

record cipher =
  c_key :: bytes
  c_iv :: bytes
  c_out :: bytes

record decipher =
  d_key :: bytes
  d_iv :: bytes
  d_tag :: "bytes option"
  d_in :: bytes

definition createCipheriv :: "bytes \<Rightarrow> bytes \<Rightarrow> error + cipher" where
  "createCipheriv key iv =
     (if iv = [] then Inl (TypeError ''Invalid initialization vector'')
      else if length key \<noteq> 32 then Inl (RangeError ''Invalid key length'')
      else Inr \<lparr>c_key = key, c_iv = iv, c_out = []\<rparr>)"

definition cipher_update :: "env \<Rightarrow> cipher \<Rightarrow> jsval \<Rightarrow> error + (bytes \<times> cipher)" where
  "cipher_update e c v =
     bindE (bytes_like v) (\<lambda>bs.
       let out = gcm_ctr e (c_key c) (c_iv c) bs
       in Inr (out, c\<lparr>c_out := c_out c @ out\<rparr>))"

definition cipher_final :: "cipher \<Rightarrow> bytes" where
  "cipher_final c = []"

definition getAuthTag :: "env \<Rightarrow> cipher \<Rightarrow> bytes" where
  "getAuthTag e c = gcm_tag e (c_key c) (c_iv c) (c_out c)"

definition createDecipheriv :: "bytes \<Rightarrow> jsval \<Rightarrow> error + decipher" where
  "createDecipheriv key iv =
     bindE (bytes_like iv) (\<lambda>ivb.
       if ivb = [] then Inl (TypeError ''Invalid initialization vector'')
       else if length key \<noteq> 32 then Inl (RangeError ''Invalid key length'')
       else Inr \<lparr>d_key = key, d_iv = ivb, d_tag = None, d_in = []\<rparr>)"

definition setAuthTag :: "decipher \<Rightarrow> bytes \<Rightarrow> decipher" where
  "setAuthTag d t = d\<lparr>d_tag := Some t\<rparr>"

definition decipher_update :: "env \<Rightarrow> decipher \<Rightarrow> jsval \<Rightarrow> error + (bytes \<times> decipher)" where
  "decipher_update e d v =
     bindE (bytes_like v) (\<lambda>bs.
       Inr (gcm_ctr e (d_key d) (d_iv d) bs, d\<lparr>d_in := d_in d @ bs\<rparr>))"

definition decipher_final :: "env \<Rightarrow> decipher \<Rightarrow> error + bytes" where
  "decipher_final e d =
     (case d_tag d of
        None \<Rightarrow> Inl (Error ''Unsupported state or unable to authenticate data'')
      | Some t \<Rightarrow>
          if gcm_tag e (d_key d) (d_iv d) (d_in d) = t then Inr []
          else Inl (Error ''Unsupported state or unable to authenticate data''))"

subsection \<open>The PDF document\<close>

definition PDFDocument_create :: pdf where
  "PDFDocument_create = \<lparr>pages = 0, texts = [], attachments = []\<rparr>"

definition addPage :: "pdf \<Rightarrow> pdf" where
  "addPage p = p\<lparr>pages := Suc (pages p)\<rparr>"

datatype rotate_option = Rotate_undefined | Rotate_Rotation | Rotate_number

definition drawText :: "pdf \<Rightarrow> string \<Rightarrow> rotate_option \<Rightarrow> error + pdf" where
  \<comment> \<open>pdf-lib accepts as \<^verbatim>\<open>options.rotate\<close> a Rotation object or nothing; a number throws\<close>
  "drawText p s rotation =
     (if rotation = Rotate_number
      then Inl (TypeError ''options.rotate must be of type Rotation or undefined'')
      else Inr (p\<lparr>texts := texts p @ [s]\<rparr>))"

definition forge_encode64 :: "bytes \<Rightarrow> error + string" where
  \<comment> \<open>\<^verbatim>\<open>forge.util.encode64\<close> handed a Buffer: it reads \<^verbatim>\<open>input.charCodeAt(i)\<close> for every
      index below \<^verbatim>\<open>input.length\<close>, and a Buffer has no such method\<close>
  "forge_encode64 input =
     (if input = [] then Inr [] else Inl (TypeError ''input.charCodeAt is not a function''))"

definition attach :: "pdf \<Rightarrow> bytes \<Rightarrow> string \<Rightarrow> pdf" where
  "attach p bs name = p\<lparr>attachments := attachments p @ [(name, bs)]\<rparr>"

section \<open>DocumentService\<close>

subsection \<open>Security features\<close>

definition generateHologram :: "world \<Rightarrow> error + (jsval \<times> world)" where
  "generateHologram w =
     (let (pattern, w') = randomBytes 32 w
      in bindE (forge_encode64 pattern) (\<lambda>encoded. Inr (JStr encoded, w')))"

definition microprint_text :: "env \<Rightarrow> jsval \<Rightarrow> int \<Rightarrow> string" where
  \<comment> \<open>the template literal \<^verbatim>\<open>`RSA DHA ${data.documentNumber} ${Date.now()}`\<close>\<close>
  "microprint_text e documentNumber now =
     ''RSA DHA '' @ js_String e documentNumber @ '' '' @ js_String e (JNum now)"

definition generateMicroprint :: "env \<Rightarrow> jsval \<Rightarrow> world \<Rightarrow> error + (jsval \<times> world)" where
  "generateMicroprint e data w =
     bindE (get_prop data ''documentNumber'') (\<lambda>documentNumber.
       let (now, w') = Date_now w;
           text = microprint_text e documentNumber now
       in bindE (sharp_toBuffer e text) (\<lambda>buf. Inr (JBytes buf, w')))"

definition generateUVFeatures :: "world \<Rightarrow> jsval \<times> world" where
  "generateUVFeatures w = (let (bs, w') = randomBytes 64 w in (JBytes bs, w'))"

definition generateSecurityThread :: "world \<Rightarrow> jsval \<times> world" where
  "generateSecurityThread w = (let (bs, w') = randomBytes 48 w in (JBytes bs, w'))"

definition addSecurityFeatures :: "env \<Rightarrow> jsval \<Rightarrow> world \<Rightarrow> error + (jsval \<times> world)" where
  "addSecurityFeatures e data w0 =
     bindE (generateHologram w0) (\<lambda>(hologram, w1).
     bindE (generateMicroprint e data w1) (\<lambda>(microprint, w2).
       let (uvFeatures, w3) = generateUVFeatures w2;
           (securityThread, w4) = generateSecurityThread w3
       in Inr (JObj [(''hologram'', hologram), (''microprint'', microprint),
                     (''uvFeatures'', uvFeatures), (''securityThread'', securityThread)],
               w4)))"

definition addSecurityWatermark :: "env \<Rightarrow> pdf \<Rightarrow> world \<Rightarrow> error + (pdf \<times> world)" where
  \<comment> \<open>\<^verbatim>\<open>rotate: Math.PI / 4\<close> is a number\<close>
  "addSecurityWatermark e page w =
     (let (now, w') = Date_now w;
          watermarkText = ''SECURED '' @ js_String e (JNum now)
      in bindE (drawText page watermarkText Rotate_number) (\<lambda>page'. Inr (page', w')))"

subsection \<open>The verification QR code and the biometric attachment\<close>

definition generateVerificationQR :: "env \<Rightarrow> jsval \<Rightarrow> error + bytes" where
  "generateVerificationQR e data =
     bindE (get_prop data ''documentType'') (\<lambda>docType.
     bindE (get_prop data ''documentNumber'') (\<lambda>documentNumber.
     bindE (bytes_like (JSON_stringify e data)) (\<lambda>serialised.
       let verificationData = JObj
             [(''docType'', docType), (''id'', documentNumber),
              (''hash'', JStr (to_hex (sha256 e serialised)))]
       in QRCode_toBuffer e (JSON_stringify e verificationData))))"

definition addBiometricData :: "env \<Rightarrow> serviceConfig \<Rightarrow> pdf \<Rightarrow> jsval \<Rightarrow> error + pdf" where
  "addBiometricData e cfg doc biometrics =
     bindE (bytes_like (JSON_stringify e biometrics)) (\<lambda>plain.
     bindE (privateEncrypt e (pki_privateKey cfg) plain) (\<lambda>encryptedBiometrics.
       Inr (attach doc encryptedBiometrics ''biometrics.dat'')))"

definition addDocumentContent :: "pdf \<Rightarrow> jsval \<Rightarrow> string \<Rightarrow> error + pdf" where
  \<comment> \<open>the three methods called here are defined nowhere in the class\<close>
  "addDocumentContent page data documentType =
     (if documentType = ''passport''
      then Inl (TypeError ''this.addPassportContent is not a function'')
      else if documentType = ''id_card''
      then Inl (TypeError ''this.addIDCardContent is not a function'')
      else if documentType = ''birth_certificate''
      then Inl (TypeError ''this.addBirthCertContent is not a function'')
      else Inr page)"

subsection \<open>Sealing: \<^verbatim>\<open>wrapWithSecurity\<close>\<close>

definition wrapWithSecurity :: "env \<Rightarrow> serviceConfig \<Rightarrow> jsval \<Rightarrow> world \<Rightarrow> error + (jsval \<times> world)" where
  "wrapWithSecurity e cfg doc w0 =
     bindE (get_prop doc ''pdf'') (\<lambda>d.
     bindE (get_prop doc ''signature'') (\<lambda>s.
     bindE (get_prop doc ''qrCode'') (\<lambda>q.
     bindE (get_prop doc ''securityFeatures'') (\<lambda>f.
       let (t, w1) = Date_now w0;
           wrapped = JObj
             [(''document'', d), (''signature'', s), (''qrCode'', q), (''securityFeatures'', f),
              (''metadata'', JObj
                 [(''timestamp'', JNum t),
                  (''issuer'', JStr ''DHA Digital Services''),
                  (''verificationEndpoint'', JStr ''/api/verify'')])];
           (encryptionKey, w2) = randomBytes 32 w1;
           (iv, w3) = randomBytes 16 w2
       in
       bindE (createCipheriv encryptionKey iv) (\<lambda>c.
       bindE (cipher_update e c (JSON_stringify e wrapped)) (\<lambda>(chunk, c').
         let encrypted = chunk @ cipher_final c' in
         bindE (publicEncrypt e (pki_publicKey cfg) encryptionKey) (\<lambda>k.
           Inr (JObj [(''package'', JBytes encrypted), (''key'', JBytes k), (''iv'', JBytes iv)],
                w3))))))))"

subsection \<open>The pipeline: \<^verbatim>\<open>generateSecureDocument\<close>\<close>

definition generateSecureDocument ::
  "env \<Rightarrow> serviceConfig \<Rightarrow> jsval \<Rightarrow> string \<Rightarrow> world \<Rightarrow> error + (jsval \<times> world)" where
  "generateSecureDocument e cfg data documentType w0 =
     bindE (get_prop data ''idNumber'') (\<lambda>idNumber.
     bindE (dha_get e (''/verify/'' @ js_String e idNumber)) (\<lambda>nprValidation.
     bindE (get_prop nprValidation ''data'') (\<lambda>nprData.
     bindE (get_prop nprData ''verified'') (\<lambda>verified.
       if \<not> truthy verified then Inl (Error ''Identity verification failed'')
       else
         let pdfDoc = addPage PDFDocument_create in
         bindE (addSecurityFeatures e data w0) (\<lambda>(securityFeatures, w1).
         bindE (get_prop data ''biometrics'') (\<lambda>biometrics.
         bindE (if truthy biometrics then addBiometricData e cfg pdfDoc biometrics else Inr pdfDoc)
           (\<lambda>pdfDoc1.
         bindE (generateVerificationQR e data) (\<lambda>qrCode.
         bindE (drawText pdfDoc1 ''REPUBLIC OF SOUTH AFRICA'' Rotate_undefined) (\<lambda>pdfDoc2.
         bindE (addDocumentContent pdfDoc2 data documentType) (\<lambda>pdfDoc3.
         bindE (addSecurityWatermark e pdfDoc3 w1) (\<lambda>(pdfDoc4, w2).
         bindE (security_sign e (JSON_stringify e data)) (\<lambda>signature.
           wrapWithSecurity e cfg
             (JObj [(''pdf'', JBytes (pdf_save e pdfDoc4)), (''signature'', signature),
                    (''qrCode'', JBytes qrCode), (''securityFeatures'', securityFeatures)])
             w2))))))))))))"

subsection \<open>Opening: \<^verbatim>\<open>verifyDocument\<close>\<close>

definition verifyDocument_try :: "env \<Rightarrow> serviceConfig \<Rightarrow> jsval \<Rightarrow> error + jsval" where
  \<comment> \<open>the body of the \<^verbatim>\<open>try\<close> block\<close>
  "verifyDocument_try e cfg encryptedDoc =
     bindE (get_prop encryptedDoc ''key'') (\<lambda>k.
     bindE (privateDecrypt e (pki_privateKey cfg) k) (\<lambda>decryptionKey.
     bindE (get_prop encryptedDoc ''iv'') (\<lambda>iv.
     bindE (createDecipheriv decryptionKey iv) (\<lambda>d.
     bindE (get_prop encryptedDoc ''package'') (\<lambda>p.
     bindE (decipher_update e d p) (\<lambda>(chunk, d').
     bindE (decipher_final e d') (\<lambda>fin.
       let decrypted = utf8_decode e (chunk @ fin) in
       bindE (JSON_parse e decrypted) (\<lambda>parsedDecrypted.
       bindE (get_prop parsedDecrypted ''document'') (\<lambda>document.
       bindE (get_prop parsedDecrypted ''signature'') (\<lambda>signature.
       bindE (security_verify e (JSON_stringify e document) signature) (\<lambda>isValid.
         if \<not> truthy isValid then Inl (Error ''Invalid document signature'')
         else
           bindE (get_prop parsedDecrypted ''metadata'') (\<lambda>metadata.
             Inr (JObj [(''verified'', JBool True), (''document'', document),
                        (''metadata'', metadata)])))))))))))))"

definition verification_failed :: jsval where
  "verification_failed =
     JObj [(''verified'', JBool False), (''error'', JStr ''Document verification failed'')]"

definition verifyDocument :: "env \<Rightarrow> serviceConfig \<Rightarrow> jsval \<Rightarrow> jsval \<times> error list" where
  \<comment> \<open>the returned value, and what the \<^verbatim>\<open>catch\<close> block writes to the console\<close>
  "verifyDocument e cfg encryptedDoc =
     (case verifyDocument_try e cfg encryptedDoc of
        Inr result \<Rightarrow> (result, [])
      | Inl err \<Rightarrow> (verification_failed, [err]))"

section \<open>EnhancedDocumentService\<close>

record SecurityFeature =
  feature_type :: string
  feature_data :: jsval
  verificationMethod :: string

record DocumentSecurityConfig =
  watermark :: bool
  hologram :: bool
  microprint :: bool
  uvFeatures :: bool
  rfidChip :: bool
  biometricData :: bool
  quantumEncryption :: bool
  blockchainVerification :: bool

text \<open>
  \<^verbatim>\<open>securityConfig\<close> is an instance field. Its initialiser sets every flag; the field is
  an ordinary mutable object (\<^verbatim>\<open>private\<close> is checked by the compiler only, and
  \<^verbatim>\<open>finalizeDocument\<close> puts the object itself into the value it returns), so each method
  that reads \<^verbatim>\<open>this.securityConfig\<close> takes the field's value at the time of the call as
  an argument.
\<close>

definition securityConfig :: DocumentSecurityConfig where
  \<comment> \<open>the initialiser of the field\<close>
  "securityConfig =
     \<lparr>watermark = True, hologram = True, microprint = True, uvFeatures = True, rfidChip = True,
      biometricData = True, quantumEncryption = True, blockchainVerification = True\<rparr>"

definition masterKey :: "serviceConfig \<Rightarrow> string" where
  \<comment> \<open>\<^verbatim>\<open>securityKeys.encryption.masterKey\<close>\<close>
  "masterKey cfg = security_biometric cfg"

subsection \<open>Input check and base document\<close>

definition verifyInputData :: "jsval \<Rightarrow> error + unit" where
  "verifyInputData data =
     bindE (get_prop data ''idNumber'') (\<lambda>idNumber.
       if \<not> truthy idNumber then Inl (Error ''Invalid ID number'')
       else
         bindE (get_prop data ''documentType'') (\<lambda>documentType.
           if \<not> truthy documentType then Inl (Error ''Invalid document type'')
           else Inr ()))"

definition addBaseSecurityFeatures :: "pdf \<Rightarrow> error + pdf" where
  \<comment> \<open>\<^verbatim>\<open>this.addBaseSecurityFeatures\<close> is defined nowhere (the class has an index signature
      for the compiler, and no base class): calling it throws\<close>
  "addBaseSecurityFeatures page = Inl (TypeError ''this.addBaseSecurityFeatures is not a function'')"

definition createBaseDocument :: "string \<Rightarrow> error + pdf" where
  "createBaseDocument ty =
     (let pdfDoc = PDFDocument_create;
          page = addPage pdfDoc
      in bindE (addBaseSecurityFeatures page) (\<lambda>_. Inr page))"

subsection \<open>The feature generators\<close>

definition addDynamicWatermark :: "pdf \<Rightarrow> SecurityFeature" where
  "addDynamicWatermark doc =
     \<lparr>feature_type = ''watermark'', feature_data = JStr ''watermark_data'',
      verificationMethod = ''optical''\<rparr>"

definition addHolographicElement :: "pdf \<Rightarrow> SecurityFeature" where
  "addHolographicElement doc =
     \<lparr>feature_type = ''hologram'', feature_data = JStr ''hologram_data'',
      verificationMethod = ''specialized_scanner''\<rparr>"

definition addMicroprinting :: "pdf \<Rightarrow> jsval \<Rightarrow> SecurityFeature" where
  "addMicroprinting doc data =
     \<lparr>feature_type = ''microprint'', feature_data = JStr ''microprint_data'',
      verificationMethod = ''microscope''\<rparr>"

definition addUVFeatures :: "pdf \<Rightarrow> SecurityFeature" where
  "addUVFeatures doc =
     \<lparr>feature_type = ''uv'', feature_data = JStr ''uv_data'', verificationMethod = ''uv_light''\<rparr>"

definition addRFIDData :: "pdf \<Rightarrow> jsval \<Rightarrow> SecurityFeature" where
  "addRFIDData doc data =
     \<lparr>feature_type = ''rfid'', feature_data = JStr ''rfid_data'',
      verificationMethod = ''rfid_scanner''\<rparr>"

definition addAdvancedSecurity :: "DocumentSecurityConfig \<Rightarrow> pdf \<Rightarrow> jsval \<Rightarrow> SecurityFeature list" where
  \<comment> \<open>the first argument is \<^verbatim>\<open>this.securityConfig\<close>; each \<^verbatim>\<open>push\<close> appends\<close>
  "addAdvancedSecurity sc doc data =
     (let securityFeatures0 = [];
          securityFeatures1 =
            (if watermark sc then securityFeatures0 @ [addDynamicWatermark doc]
             else securityFeatures0);
          securityFeatures2 =
            (if hologram sc then securityFeatures1 @ [addHolographicElement doc]
             else securityFeatures1);
          securityFeatures3 =
            (if microprint sc then securityFeatures2 @ [addMicroprinting doc data]
             else securityFeatures2);
          securityFeatures4 =
            (if uvFeatures sc then securityFeatures3 @ [addUVFeatures doc]
             else securityFeatures3);
          securityFeatures5 =
            (if rfidChip sc then securityFeatures4 @ [addRFIDData doc data]
             else securityFeatures4)
      in securityFeatures5)"

subsection \<open>Biometrics\<close>

definition encryptBiometricData :: "env \<Rightarrow> serviceConfig \<Rightarrow> jsval \<Rightarrow> world \<Rightarrow> error + (bytes \<times> world)" where
  "encryptBiometricData e cfg biometrics w =
     (let (iv, w') = randomBytes 16 w in
      bindE (createCipheriv (from_hex (masterKey cfg)) iv) (\<lambda>c.
      bindE (cipher_update e c (JSON_stringify e biometrics)) (\<lambda>(chunk, c').
        let encrypted = chunk @ cipher_final c'
        in Inr (iv @ getAuthTag e c' @ encrypted, w'))))"

definition addBiometricFeatures ::
  "env \<Rightarrow> serviceConfig \<Rightarrow> pdf \<Rightarrow> jsval \<Rightarrow> world \<Rightarrow> error + ((SecurityFeature \<times> pdf) \<times> world)" where
  \<comment> \<open>returns the feature and the document with the attachment added\<close>
  "addBiometricFeatures e cfg doc biometrics w =
     bindE (encryptBiometricData e cfg biometrics w) (\<lambda>(encryptedBiometrics, w').
       Inr ((\<lparr>feature_type = ''biometric'', feature_data = JStr ''biometric_reference'',
               verificationMethod = ''biometric_scanner''\<rparr>,
             attach doc encryptedBiometrics ''biometrics.dat''),
            w'))"

subsection \<open>Hash and anchor\<close>

definition createDocumentHash :: "env \<Rightarrow> pdf \<Rightarrow> jsval \<Rightarrow> error + string" where
  "createDocumentHash e doc data =
     bindE (bytes_like (JSON_stringify e data)) (\<lambda>serialised.
       Inr (to_hex (sha256 e serialised)))"

definition storeOnBlockchain :: "string \<Rightarrow> world \<Rightarrow> jsval \<times> world" where
  \<comment> \<open>a local stub: no backend is contacted and nothing in it throws\<close>
  "storeOnBlockchain hash w =
     (let (now, w') = Date_now w in
      (JObj [(''stored'', JBool True), (''timestamp'', JNum now),
             (''reference'', JStr (''blockchain_ref_'' @ hash))],
       w'))"

definition addBlockchainVerification :: "env \<Rightarrow> pdf \<Rightarrow> jsval \<Rightarrow> world \<Rightarrow> error + (jsval \<times> world)" where
  "addBlockchainVerification e doc data w =
     bindE (createDocumentHash e doc data) (\<lambda>docHash.
       let (blockchainRef, w1) = storeOnBlockchain docHash w;
           (now, w2) = Date_now w1
       in Inr (JObj [(''hash'', JStr docHash), (''reference'', blockchainRef),
                     (''timestamp'', JNum now)],
               w2))"

subsection \<open>Finalisation\<close>

definition enhanced_generateVerificationQR ::
  "env \<Rightarrow> jsval \<Rightarrow> jsval \<Rightarrow> world \<Rightarrow> error + (bytes \<times> world)" where
  "enhanced_generateVerificationQR e data anchorRecord w =
     bindE (get_prop data ''documentNumber'') (\<lambda>documentNumber.
     bindE (get_prop anchorRecord ''reference'') (\<lambda>reference.
       let (now, w') = Date_now w;
           verificationData = JObj
             [(''documentId'', documentNumber), (''blockchainRef'', reference),
              (''issueDate'', JStr (toISOString e now))]
       in bindE (QRCode_toBuffer e (JSON_stringify e verificationData)) (\<lambda>buf. Inr (buf, w'))))"

definition config_object :: "DocumentSecurityConfig \<Rightarrow> jsval" where
  \<comment> \<open>the configuration object as it appears inside the returned document\<close>
  "config_object sc =
     JObj [(''watermark'', JBool (watermark sc)), (''hologram'', JBool (hologram sc)),
           (''microprint'', JBool (microprint sc)), (''uvFeatures'', JBool (uvFeatures sc)),
           (''rfidChip'', JBool (rfidChip sc)), (''biometricData'', JBool (biometricData sc)),
           (''quantumEncryption'', JBool (quantumEncryption sc)),
           (''blockchainVerification'', JBool (blockchainVerification sc))]"

definition spread :: "jsval \<Rightarrow> (string \<times> jsval) list" where
  \<comment> \<open>the own enumerable properties that \<^verbatim>\<open>{...v}\<close> copies\<close>
  "spread v =
     (case v of
        JObj fs \<Rightarrow> fs
      | JStr s \<Rightarrow> zip (map show_nat [0..<length s]) (map (\<lambda>c. JStr [c]) s)
      | JBytes bs \<Rightarrow> zip (map show_nat [0..<length bs]) (map (\<lambda>b. JNum (uint b)) bs)
      | JArr vs \<Rightarrow> zip (map show_nat [0..<length vs]) vs
      | _ \<Rightarrow> [])"

definition set_property :: "string \<Rightarrow> jsval \<Rightarrow> (string \<times> jsval) list \<Rightarrow> (string \<times> jsval) list" where
  \<comment> \<open>an existing key keeps its place, a new key goes to the end\<close>
  "set_property k v fs =
     (if k \<in> fst ` set fs then map (\<lambda>(k', v'). if k' = k then (k', v) else (k', v')) fs
      else fs @ [(k, v)])"

definition applyQuantumEncryption :: "jsval \<Rightarrow> jsval" where
  \<comment> \<open>\<^verbatim>\<open>{...doc, quantumProtected: true}\<close>\<close>
  "applyQuantumEncryption doc = JObj (set_property ''quantumProtected'' (JBool True) (spread doc))"

definition finalizeDocument ::
  "env \<Rightarrow> DocumentSecurityConfig \<Rightarrow> pdf \<Rightarrow> jsval \<Rightarrow> jsval \<Rightarrow> world \<Rightarrow> error + (jsval \<times> world)" where
  "finalizeDocument e sc doc data anchorRecord w =
     (let document = JBytes (pdf_save e doc) in
      bindE (enhanced_generateVerificationQR e data anchorRecord w) (\<lambda>(qrCode, w1).
        let (now, w2) = Date_now w1 in
        bindE (get_prop data ''documentType'') (\<lambda>documentType.
          let finalDoc = JObj
                [(''document'', document),
                 (''verification'', JObj
                    [(''blockchain'', anchorRecord), (''qrCode'', JBytes qrCode),
                     (''securityFeatures'', config_object sc)]),
                 (''metadata'', JObj
                    [(''issuedAt'', JStr (toISOString e now)), (''issuer'', JStr ''DHA-RSA''),
                     (''documentType'', documentType)])]
          in Inr (if quantumEncryption sc then applyQuantumEncryption finalDoc else finalDoc,
                  w2))))"

subsection \<open>The pipeline: \<^verbatim>\<open>generateSecureDocument\<close>\<close>

text \<open>
  The catch block reports the error to the self-healing service and throws it again, so the
  caller sees the error of the step that failed. The list that \<^verbatim>\<open>addAdvancedSecurity\<close>
  returns is not used by the caller.
\<close>

definition enhanced_generateSecureDocument ::
  "env \<Rightarrow> serviceConfig \<Rightarrow> DocumentSecurityConfig \<Rightarrow> string \<Rightarrow> jsval \<Rightarrow> world
     \<Rightarrow> error + (jsval \<times> world)" where
  \<comment> \<open>the third argument is \<^verbatim>\<open>this.securityConfig\<close> at the time of the call\<close>
  "enhanced_generateSecureDocument e cfg sc ty data w0 =
     bindE (verifyInputData data) (\<lambda>_.
     bindE (createBaseDocument ty) (\<lambda>doc.
       let _ = addAdvancedSecurity sc doc data in
       bindE (get_prop data ''biometrics'') (\<lambda>biometrics.
       bindE (if truthy biometrics
              then bindE (addBiometricFeatures e cfg doc biometrics w0)
                     (\<lambda>((feature, doc'), w'). Inr (doc', w'))
              else Inr (doc, w0)) (\<lambda>(doc1, w1).
       bindE (addBlockchainVerification e doc1 data w1) (\<lambda>(anchorRecord, w2).
         finalizeDocument e sc doc1 data anchorRecord w2)))))"

section \<open>Tampering, and a concrete environment to run the model in\<close>

text \<open>
  An adversary's change to one byte of a field of an envelope: the byte at index \<open>i\<close> is
  combined with a mask by exclusive or. A field that is absent or holds no bytes has no byte
  to change.
\<close>

definition flip_byte :: "nat \<Rightarrow> byte \<Rightarrow> bytes \<Rightarrow> bytes" where
  "flip_byte i m bs = bs[i := (bs ! i) XOR m]"

definition tamper :: "string \<Rightarrow> nat \<Rightarrow> byte \<Rightarrow> jsval \<Rightarrow> jsval" where
  "tamper field i m envelope =
     (case envelope of
        JObj fs \<Rightarrow>
          JObj (map (\<lambda>(k, v). if k = field
                               then (k, case v of JBytes bs \<Rightarrow> JBytes (flip_byte i m bs) | _ \<Rightarrow> v)
                               else (k, v)) fs)
      | _ \<Rightarrow> envelope)"

definition Object_keys :: "jsval \<Rightarrow> string list" where
  "Object_keys v = (case v of JObj fs \<Rightarrow> map fst fs | _ \<Rightarrow> [])"

definition field_of :: "error + jsval \<Rightarrow> string \<Rightarrow> error + jsval" where
  \<comment> \<open>a field of the value a call returned\<close>
  "field_of r k = bindE r (\<lambda>v. get_prop v k)"

definition returned :: "error + ('a \<times> world) \<Rightarrow> error + 'a" where
  "returned r = map_sum id fst r"

text \<open>
  A small environment in which every collaborator answers, used to run the functions on
  concrete inputs: the register confirms every identity, the key wrap prefixes one byte
  and the unwrap removes it, the block transformation reverses its input, and the JSON
  text of an object lists its keys.
\<close>

definition demo_privateDecrypt :: "string \<Rightarrow> jsval \<Rightarrow> error + bytes" where
  "demo_privateDecrypt k v =
     (case v of
        JBytes bs \<Rightarrow>
          (case bs of
             [] \<Rightarrow> Inl (Error ''oaep decoding error'')
           | b # rest \<Rightarrow> if b = 1 then Inr rest else Inl (Error ''oaep decoding error''))
      | _ \<Rightarrow> Inl (TypeError ''The buffer argument must be a Buffer''))"

definition demo_stringify :: "jsval \<Rightarrow> jsval" where
  "demo_stringify v =
     (case v of
        JUndef \<Rightarrow> JUndef
      | JObj fs \<Rightarrow> JStr (''{'' @ join_commas (map fst fs) @ ''}'')
      | JStr s \<Rightarrow> JStr s
      | _ \<Rightarrow> JStr ''null'')"

definition demo_env :: env where
  "demo_env =
     \<lparr>sha256 = (\<lambda>bs. replicate 32 (of_nat (length bs))),
      gcm_ctr = (\<lambda>key iv bs. rev bs),
      gcm_tag = (\<lambda>key iv bs. replicate 16 (of_nat (length bs))),
      publicEncrypt = (\<lambda>k bs. Inr (1 # bs)),
      privateDecrypt = demo_privateDecrypt,
      privateEncrypt = (\<lambda>k bs. Inr (2 # bs)),
      security_sign = (\<lambda>v. Inr (JStr ''signed'')),
      security_verify = (\<lambda>v s. Inr (JBool (s = JStr ''signed''))),
      JSON_stringify = demo_stringify,
      JSON_parse = (\<lambda>s. Inl (SyntaxError ''Unexpected token'')),
      QRCode_toBuffer = (\<lambda>v. bytes_like v),
      sharp_toBuffer = (\<lambda>s. Inr (bytes_of_string s)),
      dha_get = (\<lambda>path. Inr (JObj [(''data'', JObj [(''verified'', JBool True)])])),
      toISOString = (\<lambda>t. show_int t),
      pdf_save = (\<lambda>p. [of_nat (pages p), of_nat (length (texts p)),
                        of_nat (length (attachments p))]),
      utf8_decode = (\<lambda>bs. map (\<lambda>b. char_of (unat b)) bs),
      Number_toString = (\<lambda>n. show_int n)\<rparr>"

definition demo_cfg :: serviceConfig where
  "demo_cfg = \<lparr>pki_privateKey = ''private'', pki_publicKey = ''public'',
      security_biometric = ''000102030405060708090a0b0c0d0e0f101112131415161718191a1b1c1d1e1f''\<rparr>"

definition demo_world :: world where
  "demo_world =
     \<lparr>rnd = (\<lambda>i. of_nat i), clock = (\<lambda>i. 1700000000000 + int i), anchor_backend_up = True\<rparr>"

definition demo_doc :: jsval where
  "demo_doc = JObj [(''pdf'', JBytes [37, 80, 68, 70]), (''signature'', JStr ''signed''),
     (''qrCode'', JBytes [1, 2, 3]), (''securityFeatures'', JObj [])]"

definition demo_anchor :: jsval where
  "demo_anchor = JObj
     [(''hash'', JStr ''00''),
      (''reference'', JObj [(''stored'', JBool True), (''timestamp'', JNum 1700000000000),
                            (''reference'', JStr ''blockchain_ref_00'')]),
      (''timestamp'', JNum 1700000000001)]"

definition demo_world_offline :: world where
  \<comment> \<open>the same world with the anchoring backend out of reach\<close>
  "demo_world_offline = demo_world\<lparr>anchor_backend_up := False\<rparr>"

definition demo_data :: jsval where
  "demo_data = JObj [(''idNumber'', JStr ''8001015009087''), (''documentType'', JStr ''work_permit''),
     (''documentNumber'', JStr ''A1234'')]"

section \<open>Properties\<close>

lemma bindE_Inl [simp]: "bindE (Inl x) f = Inl x"
  by (simp add: bindE_def)

lemma bindE_Inr [simp]: "bindE (Inr x) f = f x"
  by (simp add: bindE_def)

lemma bindE_eq_Inr: "bindE m f = Inr y \<longleftrightarrow> (\<exists>x. m = Inr x \<and> f x = Inr y)"
  by (cases m) simp_all

lemma createDecipheriv_no_tag: "createDecipheriv key iv = Inr d \<Longrightarrow> d_tag d = None"
  by (auto simp: createDecipheriv_def bindE_eq_Inr split: if_splits)

lemma decipher_update_tag: "decipher_update e d v = Inr (out, d') \<Longrightarrow> d_tag d' = d_tag d"
  by (auto simp: decipher_update_def bindE_eq_Inr)

lemma decipher_final_no_tag: "d_tag d = None \<Longrightarrow> \<exists>err. decipher_final e d = Inl err"
  by (simp add: decipher_final_def)

lemma verifyDocument_try_throws: "\<exists>err. verifyDocument_try e cfg encryptedDoc = Inl err"
proof (cases "verifyDocument_try e cfg encryptedDoc")
  case (Inl err)
  then show ?thesis by blast
next
  case (Inr result)
  then obtain decryptionKey iv d p chunk d' fin where
    d: "createDecipheriv decryptionKey iv = Inr d" and
    u: "decipher_update e d p = Inr (chunk, d')" and
    f: "decipher_final e d' = Inr fin"
    unfolding verifyDocument_try_def by (auto simp: bindE_eq_Inr)
  from d u have "d_tag d' = None"
    by (simp add: createDecipheriv_no_tag decipher_update_tag)
  with f decipher_final_no_tag [of d' e] show ?thesis by auto
qed

subsection \<open>Running the model\<close>

lemmas demo_defs = demo_env_def demo_cfg_def demo_data_def demo_world_def demo_stringify_def
  demo_privateDecrypt_def demo_doc_def demo_anchor_def demo_world_offline_def

lemmas step_defs = get_prop_def truthy_def randomBytes_def Date_now_def bytes_like_def
      createCipheriv_def cipher_update_def cipher_final_def
      PDFDocument_create_def addPage_def drawText_def attach_def Let_def split_def
      applyQuantumEncryption_def spread_def set_property_def

subsection \<open>Opening an envelope\<close>

text \<open>
  \<^verbatim>\<open>verifyDocument\<close> creates the decipher, feeds it the package and calls \<^verbatim>\<open>final\<close>
  without ever passing a tag, and \<^verbatim>\<open>wrapWithSecurity\<close> never reads the tag of what it
  encrypted. So \<^verbatim>\<open>final\<close> throws on every input and the catch block answers. Had the
  tag been carried over, as \<^verbatim>\<open>encryptBiometricData\<close> does with \<^verbatim>\<open>getAuthTag\<close>, the same
  call would succeed.
\<close>

lemma decipher_final_with_tag:
  assumes "createDecipheriv key (JBytes iv) = Inr d"
    and "decipher_update e d (JBytes ct) = Inr (out, d')"
  shows "decipher_final e (setAuthTag d' (gcm_tag e key iv ct)) = Inr []"
  using assms
  by (auto simp: createDecipheriv_def decipher_update_def decipher_final_def setAuthTag_def
      bytes_like_def split: if_splits)

lemma verifyDocument_fails:
  "fst (verifyDocument e cfg encryptedDoc) = verification_failed"
  using verifyDocument_try_throws [of e cfg encryptedDoc]
  by (auto simp: verifyDocument_def)

subsection \<open>What sealing returns\<close>

lemma wrapWithSecurity_Inr:
  assumes "wrapWithSecurity e cfg doc w = Inr (sealed, w')"
  shows "\<exists>d s q f wrapped pt key iv k.
     get_prop doc ''pdf'' = Inr d \<and> get_prop doc ''signature'' = Inr s \<and>
     get_prop doc ''qrCode'' = Inr q \<and> get_prop doc ''securityFeatures'' = Inr f \<and>
     get_prop wrapped ''document'' = Inr d \<and> get_prop wrapped ''signature'' = Inr s \<and>
     get_prop wrapped ''qrCode'' = Inr q \<and> get_prop wrapped ''securityFeatures'' = Inr f \<and>
     get_prop wrapped ''metadata'' = Inr (JObj
        [(''timestamp'', JNum (clock w 0)), (''issuer'', JStr ''DHA Digital Services''),
         (''verificationEndpoint'', JStr ''/api/verify'')]) \<and>
     bytes_like (JSON_stringify e wrapped) = Inr pt \<and>
     key = map (rnd w) [0..<32] \<and> iv = map (\<lambda>i. rnd w (i + 32)) [0..<16] \<and>
     publicEncrypt e (pki_publicKey cfg) key = Inr k \<and>
     sealed = JObj [(''package'', JBytes (gcm_ctr e key iv pt)), (''key'', JBytes k),
                    (''iv'', JBytes iv)]"
  using assms unfolding wrapWithSecurity_def
  apply (clarsimp simp: bindE_eq_Inr randomBytes_def Date_now_def Let_def split_def
      createCipheriv_def cipher_update_def cipher_final_def split: if_splits)
  subgoal for d s q f pt k
    apply (rule exI [of _ "JObj
             [(''document'', d), (''signature'', s), (''qrCode'', q), (''securityFeatures'', f),
              (''metadata'', JObj
                 [(''timestamp'', JNum (clock w 0)),
                  (''issuer'', JStr ''DHA Digital Services''),
                  (''verificationEndpoint'', JStr ''/api/verify'')])]"])
    apply (simp add: get_prop_def)
    done
  done

lemma demo_wrap: "\<exists>sealed w'. wrapWithSecurity demo_env demo_cfg demo_doc demo_world = Inr (sealed, w')"
  by (simp add: wrapWithSecurity_def demo_defs step_defs)

subsection \<open>The pipelines as shipped\<close>

text \<open>
  Neither \<^verbatim>\<open>generateSecureDocument\<close> returns. The one of \<^verbatim>\<open>DocumentService\<close> throws in
  \<^verbatim>\<open>generateHologram\<close>, where a Buffer is handed to \<^verbatim>\<open>forge.util.encode64\<close>; the one of
  \<^verbatim>\<open>EnhancedDocumentService\<close> throws in \<^verbatim>\<open>createBaseDocument\<close>, which calls a method that
  does not exist. What follows is therefore stated for the functions that seal, open, anchor
  and finalise, each on its own.
\<close>

lemma generateHologram_throws:
  "generateHologram w = Inl (TypeError ''input.charCodeAt is not a function'')"
proof -
  have "map (rnd w) [0..<32] \<noteq> []" by simp
  then show ?thesis
    by (simp add: generateHologram_def randomBytes_def forge_encode64_def)
qed

lemma addSecurityWatermark_throws: "isl (addSecurityWatermark e page w)"
  by (simp add: addSecurityWatermark_def drawText_def Date_now_def Let_def split_def)

lemma addSecurityFeatures_throws:
  "addSecurityFeatures e d w = Inl (TypeError ''input.charCodeAt is not a function'')"
  by (simp add: addSecurityFeatures_def generateHologram_throws)

lemma generateSecureDocument_throws: "isl (generateSecureDocument e cfg d ty w)"
proof (cases "generateSecureDocument e cfg d ty w")
  case (Inl err)
  then show ?thesis by simp
next
  case (Inr r)
  then have False
    unfolding generateSecureDocument_def
    by (auto simp: bindE_eq_Inr Let_def addSecurityFeatures_throws split: if_splits)
  then show ?thesis ..
qed

lemma createBaseDocument_throws:
  "createBaseDocument ty = Inl (TypeError ''this.addBaseSecurityFeatures is not a function'')"
  by (simp add: createBaseDocument_def addBaseSecurityFeatures_def Let_def)

lemma enhanced_generateSecureDocument_throws:
  "isl (enhanced_generateSecureDocument e cfg sc ty d w)"
proof (cases "enhanced_generateSecureDocument e cfg sc ty d w")
  case (Inl err)
  then show ?thesis by simp
next
  case (Inr r)
  then have False
    unfolding enhanced_generateSecureDocument_def
    by (auto simp: bindE_eq_Inr createBaseDocument_throws)
  then show ?thesis ..
qed

lemma enhanced_generateSecureDocument_valid_input:
  assumes "verifyInputData d = Inr ()"
  shows "enhanced_generateSecureDocument e cfg sc ty d w =
           Inl (TypeError ''this.addBaseSecurityFeatures is not a function'')"
  by (simp add: enhanced_generateSecureDocument_def assms createBaseDocument_throws)

subsection \<open>Round trip\<close>

text \<open>
  Claim C1: opening what was sealed gives the document back. In the code it does not:
  whenever \<^verbatim>\<open>wrapWithSecurity\<close>, the sealing step in which \<^verbatim>\<open>generateSecureDocument\<close> ends,
  returns an envelope, \<^verbatim>\<open>verifyDocument\<close> on that envelope returns the failure value, with
  \<^verbatim>\<open>verified: false\<close> and no document.
\<close>

theorem seal_then_open_fails:
  assumes "wrapWithSecurity e cfg doc w = Inr (sealed, w')"
  shows "fst (verifyDocument e cfg sealed) = verification_failed \<and>
         get_prop (fst (verifyDocument e cfg sealed)) ''verified'' = Inr (JBool False) \<and>
         get_prop (fst (verifyDocument e cfg sealed)) ''document'' = Inr JUndef"
  by (simp add: verifyDocument_fails verification_failed_def get_prop_def)

text \<open>The hypothesis of C1 holds in the concrete environment.\<close>

theorem seal_then_open_fails_witness:
  "\<exists>sealed w'.
     wrapWithSecurity demo_env demo_cfg demo_doc demo_world = Inr (sealed, w') \<and>
     fst (verifyDocument demo_env demo_cfg sealed) = verification_failed"
proof -
  from demo_wrap obtain sealed w' where
    g: "wrapWithSecurity demo_env demo_cfg demo_doc demo_world = Inr (sealed, w')"
    by blast
  from seal_then_open_fails [OF g] g show ?thesis by blast
qed

text \<open>
  The same holds of whatever \<^verbatim>\<open>generateSecureDocument\<close> returns, since it returns what
  the sealing step returned.
\<close>

lemma pipeline_envelope_rejected:
  assumes "generateSecureDocument e cfg d ty w = Inr (sealed, w')"
  shows "fst (verifyDocument e cfg sealed) = verification_failed"
  by (rule verifyDocument_fails)

subsection \<open>Tampering\<close>

text \<open>
  Claim C2: after a change to one byte of the package, the authentication tag or the wrapped
  key of a sealed envelope, \<^verbatim>\<open>verifyDocument\<close> returns \<^verbatim>\<open>verified: false\<close> and no
  document. (The envelope has no tag field; a change to the other two fields is a real
  change, as the concrete run below shows.)
\<close>

theorem tampered_envelope_rejected:
  assumes "wrapWithSecurity e cfg doc w = Inr (sealed, w')"
    and "field \<in> {''package'', ''authTag'', ''key''}"
  shows "fst (verifyDocument e cfg (tamper field i m sealed)) = verification_failed \<and>
         get_prop (fst (verifyDocument e cfg (tamper field i m sealed))) ''verified'' = Inr (JBool False) \<and>
         get_prop (fst (verifyDocument e cfg (tamper field i m sealed))) ''document'' = Inr JUndef"
  by (simp add: verifyDocument_fails verification_failed_def get_prop_def)

text \<open>A concrete run of C2: one bit of the first byte of the wrapped key is flipped.\<close>

lemma demo_tamper:
  "returned (wrapWithSecurity demo_env demo_cfg demo_doc demo_world) = Inr sealed \<Longrightarrow>
   tamper ''key'' 0 1 sealed \<noteq> sealed"
  by (auto simp add: wrapWithSecurity_def demo_defs step_defs returned_def tamper_def flip_byte_def)

theorem tampered_envelope_rejected_witness:
  "\<exists>sealed w'.
     wrapWithSecurity demo_env demo_cfg demo_doc demo_world = Inr (sealed, w') \<and>
     ''key'' \<in> {''package'', ''authTag'', ''key''} \<and>
     tamper ''key'' 0 1 sealed \<noteq> sealed \<and>
     fst (verifyDocument demo_env demo_cfg (tamper ''key'' 0 1 sealed)) = verification_failed"
proof -
  from demo_wrap obtain sealed w' where
    g: "wrapWithSecurity demo_env demo_cfg demo_doc demo_world = Inr (sealed, w')"
    by blast
  have m: "''key'' \<in> {''package'', ''authTag'', ''key''}" by simp
  from g have "tamper ''key'' 0 1 sealed \<noteq> sealed"
    by (intro demo_tamper) (simp add: returned_def)
  with tampered_envelope_rejected [OF g m, of 0 1] g m show ?thesis by blast
qed

subsection \<open>One failure value\<close>

text \<open>
  Claim C4: whatever makes the body of the \<^verbatim>\<open>try\<close> block throw, the caller gets the same
  value, \<^verbatim>\<open>{verified: false, error: 'Document verification failed'}\<close>; the error itself
  goes to the console only.
\<close>

theorem verification_failure_uniform:
  assumes "verifyDocument_try e1 cfg1 x = Inl err1"
    and "verifyDocument_try e2 cfg2 y = Inl err2"
  shows "verifyDocument e1 cfg1 x = (verification_failed, [err1]) \<and>
         verifyDocument e2 cfg2 y = (verification_failed, [err2]) \<and>
         fst (verifyDocument e1 cfg1 x) = fst (verifyDocument e2 cfg2 y)"
  using assms by (simp add: verifyDocument_def)

text \<open>Two inputs that fail for different reasons (a null envelope, a key that does not unwrap) and yield the same value.\<close>

theorem verification_failure_uniform_witness:
  "verifyDocument_try demo_env demo_cfg JNull = Inl (TypeError ''Cannot read properties of null'') \<and>
   verifyDocument_try demo_env demo_cfg (JObj [(''key'', JBytes [0])]) = Inl (Error ''oaep decoding error'') \<and>
   fst (verifyDocument demo_env demo_cfg JNull) =
     fst (verifyDocument demo_env demo_cfg (JObj [(''key'', JBytes [0])]))"
proof -
  have a: "verifyDocument_try demo_env demo_cfg JNull = Inl (TypeError ''Cannot read properties of null'')"
    by (simp add: verifyDocument_try_def get_prop_def)
  have b: "verifyDocument_try demo_env demo_cfg (JObj [(''key'', JBytes [0])]) = Inl (Error ''oaep decoding error'')"
    by (simp add: verifyDocument_try_def get_prop_def demo_env_def demo_privateDecrypt_def)
  from verification_failure_uniform [OF a b] a b show ?thesis by simp
qed

subsection \<open>The fields of an envelope\<close>

text \<open>
  Claim C3 asks for plaintext metadata in the envelope. The envelope of the concrete run has
  the fields \<^verbatim>\<open>package\<close>, \<^verbatim>\<open>key\<close> and \<^verbatim>\<open>iv\<close>, and no \<^verbatim>\<open>metadata\<close>.
\<close>

theorem envelope_metadata_counterexample:
  "field_of (returned (wrapWithSecurity demo_env demo_cfg demo_doc demo_world)) ''metadata'' = Inr JUndef \<and>
   map_sum id Object_keys (returned (wrapWithSecurity demo_env demo_cfg demo_doc demo_world)) =
     Inr [''package'', ''key'', ''iv'']"
  by (simp add: wrapWithSecurity_def demo_defs step_defs returned_def field_of_def Object_keys_def)

text \<open>
  Claim C3, amended: every envelope that \<^verbatim>\<open>wrapWithSecurity\<close> returns holds the ciphertext
  (\<^verbatim>\<open>package\<close>), the 32-byte symmetric key wrapped under the configured public key
  (\<^verbatim>\<open>key\<close>) and a 16-byte IV (\<^verbatim>\<open>iv\<close>); the metadata (timestamp, issuer, verification
  endpoint) is part of the plaintext that is encrypted, not a field of the envelope.
\<close>

theorem wrapWithSecurity_envelope:
  assumes "wrapWithSecurity e cfg doc w = Inr (sealed, w')"
  shows "\<exists>ct k iv key wrapped pt.
     get_prop sealed ''package'' = Inr (JBytes ct) \<and>
     get_prop sealed ''key'' = Inr (JBytes k) \<and>
     get_prop sealed ''iv'' = Inr (JBytes iv) \<and>
     length iv = 16 \<and> length key = 32 \<and>
     publicEncrypt e (pki_publicKey cfg) key = Inr k \<and>
     bytes_like (JSON_stringify e wrapped) = Inr pt \<and> ct = gcm_ctr e key iv pt \<and>
     get_prop wrapped ''metadata'' = Inr (JObj
        [(''timestamp'', JNum (clock w 0)), (''issuer'', JStr ''DHA Digital Services''),
         (''verificationEndpoint'', JStr ''/api/verify'')]) \<and>
     get_prop sealed ''metadata'' = Inr JUndef"
proof -
  from wrapWithSecurity_Inr [OF assms] obtain wrapped pt key iv k where
    md: "get_prop wrapped ''metadata'' = Inr (JObj
        [(''timestamp'', JNum (clock w 0)), (''issuer'', JStr ''DHA Digital Services''),
         (''verificationEndpoint'', JStr ''/api/verify'')])" and
    pt: "bytes_like (JSON_stringify e wrapped) = Inr pt" and
    key: "key = map (rnd w) [0..<32]" and iv: "iv = map (\<lambda>i. rnd w (i + 32)) [0..<16]" and
    k: "publicEncrypt e (pki_publicKey cfg) key = Inr k" and
    sealed: "sealed = JObj [(''package'', JBytes (gcm_ctr e key iv pt)), (''key'', JBytes k),
                    (''iv'', JBytes iv)]"
    by blast
  have "length iv = 16" "length key = 32" by (simp_all add: key iv)
  moreover have "get_prop sealed ''package'' = Inr (JBytes (gcm_ctr e key iv pt))"
    "get_prop sealed ''key'' = Inr (JBytes k)" "get_prop sealed ''iv'' = Inr (JBytes iv)"
    "get_prop sealed ''metadata'' = Inr JUndef"
    by (simp_all add: sealed get_prop_def)
  ultimately show ?thesis using md pt k by blast
qed

text \<open>The hypothesis of the amended C3 holds in the concrete environment.\<close>

theorem wrapWithSecurity_envelope_witness:
  "\<exists>sealed w' iv.
     wrapWithSecurity demo_env demo_cfg demo_doc demo_world = Inr (sealed, w') \<and>
     get_prop sealed ''iv'' = Inr (JBytes iv) \<and> length iv = 16 \<and>
     get_prop sealed ''metadata'' = Inr JUndef"
proof -
  from demo_wrap obtain sealed w' where
    g: "wrapWithSecurity demo_env demo_cfg demo_doc demo_world = Inr (sealed, w')"
    by blast
  from wrapWithSecurity_envelope [OF g] g show ?thesis by blast
qed


subsection \<open>Anchoring and finalisation, step by step\<close>

lemma storeOnBlockchain_answer:
  "fst (storeOnBlockchain h w) =
     JObj [(''stored'', JBool True), (''timestamp'', JNum (clock w 0)),
           (''reference'', JStr (''blockchain_ref_'' @ h))]"
  by (simp add: storeOnBlockchain_def Date_now_def split_def)

lemma addBlockchainVerification_eq:
  "returned (addBlockchainVerification e doc d w) =
     bindE (createDocumentHash e doc d) (\<lambda>h. Inr (JObj
       [(''hash'', JStr h),
        (''reference'', JObj [(''stored'', JBool True), (''timestamp'', JNum (clock w 0)),
                              (''reference'', JStr (''blockchain_ref_'' @ h))]),
        (''timestamp'', JNum (clock w 1))]))"
  by (cases "createDocumentHash e doc d")
     (simp_all add: addBlockchainVerification_def storeOnBlockchain_def Date_now_def
        returned_def split_def)

lemma generateVerificationQR_Inr:
  assumes "generateVerificationQR e d = Inr qr"
  shows "\<exists>docType documentNumber h.
     get_prop d ''documentType'' = Inr docType \<and>
     get_prop d ''documentNumber'' = Inr documentNumber \<and>
     createDocumentHash e doc d = Inr h \<and>
     QRCode_toBuffer e (JSON_stringify e
       (JObj [(''docType'', docType), (''id'', documentNumber), (''hash'', JStr h)])) = Inr qr"
  using assms unfolding generateVerificationQR_def createDocumentHash_def
  by (auto simp: bindE_eq_Inr Let_def)

lemma enhanced_generateVerificationQR_Inr:
  assumes "enhanced_generateVerificationQR e d anchorRecord w = Inr (qr, w')"
  shows "\<exists>documentNumber reference.
     get_prop d ''documentNumber'' = Inr documentNumber \<and>
     get_prop anchorRecord ''reference'' = Inr reference \<and>
     QRCode_toBuffer e (JSON_stringify e (JObj
        [(''documentId'', documentNumber), (''blockchainRef'', reference),
         (''issueDate'', JStr (toISOString e (clock w 0)))])) = Inr qr"
  using assms unfolding enhanced_generateVerificationQR_def
  by (auto simp: bindE_eq_Inr Date_now_def Let_def split_def)

lemma finalizeDocument_Inr:
  assumes "finalizeDocument e sc doc d anchorRecord w = Inr (out, w')"
  shows "\<exists>qr w1 documentType.
     enhanced_generateVerificationQR e d anchorRecord w = Inr (qr, w1) \<and>
     get_prop d ''documentType'' = Inr documentType \<and>
     out = JObj
       ([(''document'', JBytes (pdf_save e doc)),
         (''verification'', JObj
            [(''blockchain'', anchorRecord), (''qrCode'', JBytes qr),
             (''securityFeatures'', config_object sc)]),
         (''metadata'', JObj
            [(''issuedAt'', JStr (toISOString e (clock w1 0))), (''issuer'', JStr ''DHA-RSA''),
             (''documentType'', documentType)])] @
        (if quantumEncryption sc then [(''quantumProtected'', JBool True)] else []))"
  using assms unfolding finalizeDocument_def
  by (auto simp: bindE_eq_Inr Date_now_def Let_def split_def applyQuantumEncryption_def
      spread_def set_property_def split: if_splits)

lemma demo_finalize:
  "\<exists>out w'. finalizeDocument demo_env sc PDFDocument_create demo_data demo_anchor w = Inr (out, w')"
  by (simp add: finalizeDocument_def enhanced_generateVerificationQR_def demo_defs step_defs)

subsection \<open>The verification QR code\<close>

text \<open>
  Claim C9 asks for the QR payload \<^verbatim>\<open>{docType, id, hash}\<close> in the output of sealing. The
  envelope that \<^verbatim>\<open>wrapWithSecurity\<close> returns for a package with a QR code has no
  \<^verbatim>\<open>qrCode\<close> field, and the QR code of \<^verbatim>\<open>EnhancedDocumentService\<close> encodes an object with
  the keys \<^verbatim>\<open>documentId\<close>, \<^verbatim>\<open>blockchainRef\<close> and \<^verbatim>\<open>issueDate\<close>.
\<close>

theorem qr_payload_counterexample:
  "field_of (returned (wrapWithSecurity demo_env demo_cfg demo_doc demo_world)) ''qrCode'' = Inr JUndef \<and>
   returned (enhanced_generateVerificationQR demo_env demo_data demo_anchor demo_world) =
     Inr (bytes_of_string ''{documentId,blockchainRef,issueDate}'')"
  by (simp add: wrapWithSecurity_def enhanced_generateVerificationQR_def demo_defs step_defs
      returned_def field_of_def)

text \<open>
  Claim C9, amended: the QR code of \<^verbatim>\<open>DocumentService\<close> encodes the JSON text of
  \<^verbatim>\<open>{docType, id, hash}\<close>, where \<^verbatim>\<open>hash\<close> is the hexadecimal SHA-256 digest of the
  serialised request, the digest that \<^verbatim>\<open>createDocumentHash\<close> computes; sealing encrypts the
  QR code it is given into the package, and the envelope has no \<^verbatim>\<open>qrCode\<close> field of its
  own. The QR code of \<^verbatim>\<open>EnhancedDocumentService\<close> encodes the JSON text of
  \<^verbatim>\<open>{documentId, blockchainRef, issueDate}\<close> and is returned by \<^verbatim>\<open>finalizeDocument\<close> in
  the plaintext field \<^verbatim>\<open>verification.qrCode\<close>.
\<close>

theorem qr_payloads:
  "(generateVerificationQR e d = Inr qr \<longrightarrow>
      (\<exists>docType documentNumber h.
         get_prop d ''documentType'' = Inr docType \<and>
         get_prop d ''documentNumber'' = Inr documentNumber \<and>
         createDocumentHash e doc d = Inr h \<and>
         QRCode_toBuffer e (JSON_stringify e
           (JObj [(''docType'', docType), (''id'', documentNumber), (''hash'', JStr h)])) = Inr qr)) \<and>
   (wrapWithSecurity e cfg package w = Inr (sealed, w') \<longrightarrow>
      (\<exists>q wrapped pt key iv.
         get_prop package ''qrCode'' = Inr q \<and> get_prop wrapped ''qrCode'' = Inr q \<and>
         bytes_like (JSON_stringify e wrapped) = Inr pt \<and>
         get_prop sealed ''package'' = Inr (JBytes (gcm_ctr e key iv pt)) \<and>
         get_prop sealed ''qrCode'' = Inr JUndef)) \<and>
   (finalizeDocument e sc doc2 d2 anchorRecord w2 = Inr (out, w2') \<longrightarrow>
      (\<exists>documentNumber reference issueDate qr2 v.
         get_prop d2 ''documentNumber'' = Inr documentNumber \<and>
         get_prop anchorRecord ''reference'' = Inr reference \<and>
         QRCode_toBuffer e (JSON_stringify e (JObj
            [(''documentId'', documentNumber), (''blockchainRef'', reference),
             (''issueDate'', JStr issueDate)])) = Inr qr2 \<and>
         get_prop out ''verification'' = Inr v \<and> get_prop v ''qrCode'' = Inr (JBytes qr2)))"
proof (intro conjI impI)
  assume "generateVerificationQR e d = Inr qr"
  from generateVerificationQR_Inr [OF this, of doc]
  show "\<exists>docType documentNumber h.
         get_prop d ''documentType'' = Inr docType \<and>
         get_prop d ''documentNumber'' = Inr documentNumber \<and>
         createDocumentHash e doc d = Inr h \<and>
         QRCode_toBuffer e (JSON_stringify e
           (JObj [(''docType'', docType), (''id'', documentNumber), (''hash'', JStr h)])) = Inr qr" .
next
  assume "wrapWithSecurity e cfg package w = Inr (sealed, w')"
  from wrapWithSecurity_Inr [OF this] obtain q wrapped pt key iv k where
    q: "get_prop package ''qrCode'' = Inr q" and
    wq: "get_prop wrapped ''qrCode'' = Inr q" and
    pt: "bytes_like (JSON_stringify e wrapped) = Inr pt" and
    sealed: "sealed = JObj [(''package'', JBytes (gcm_ctr e key iv pt)), (''key'', JBytes k),
                    (''iv'', JBytes iv)]"
    by blast
  have "get_prop sealed ''package'' = Inr (JBytes (gcm_ctr e key iv pt))"
    and "get_prop sealed ''qrCode'' = Inr JUndef"
    by (simp_all add: sealed get_prop_def)
  with q wq pt show "\<exists>q wrapped pt key iv.
         get_prop package ''qrCode'' = Inr q \<and> get_prop wrapped ''qrCode'' = Inr q \<and>
         bytes_like (JSON_stringify e wrapped) = Inr pt \<and>
         get_prop sealed ''package'' = Inr (JBytes (gcm_ctr e key iv pt)) \<and>
         get_prop sealed ''qrCode'' = Inr JUndef"
    by blast
next
  assume "finalizeDocument e sc doc2 d2 anchorRecord w2 = Inr (out, w2')"
  from finalizeDocument_Inr [OF this] obtain qr2 w1 documentType where
    g: "enhanced_generateVerificationQR e d2 anchorRecord w2 = Inr (qr2, w1)" and
    "get_prop d2 ''documentType'' = Inr documentType" and
    out: "out = JObj
       ([(''document'', JBytes (pdf_save e doc2)),
         (''verification'', JObj
            [(''blockchain'', anchorRecord), (''qrCode'', JBytes qr2),
             (''securityFeatures'', config_object sc)]),
         (''metadata'', JObj
            [(''issuedAt'', JStr (toISOString e (clock w1 0))), (''issuer'', JStr ''DHA-RSA''),
             (''documentType'', documentType)])] @
        (if quantumEncryption sc then [(''quantumProtected'', JBool True)] else []))"
    by blast
  have "get_prop out ''verification'' = Inr (JObj
            [(''blockchain'', anchorRecord), (''qrCode'', JBytes qr2),
             (''securityFeatures'', config_object sc)])"
    and "get_prop (JObj
            [(''blockchain'', anchorRecord), (''qrCode'', JBytes qr2),
             (''securityFeatures'', config_object sc)]) ''qrCode'' = Inr (JBytes qr2)"
    by (simp_all add: out get_prop_def)
  with enhanced_generateVerificationQR_Inr [OF g]
  show "\<exists>documentNumber reference issueDate qr2 v.
         get_prop d2 ''documentNumber'' = Inr documentNumber \<and>
         get_prop anchorRecord ''reference'' = Inr reference \<and>
         QRCode_toBuffer e (JSON_stringify e (JObj
            [(''documentId'', documentNumber), (''blockchainRef'', reference),
             (''issueDate'', JStr issueDate)])) = Inr qr2 \<and>
         get_prop out ''verification'' = Inr v \<and> get_prop v ''qrCode'' = Inr (JBytes qr2)"
    by blast
qed

text \<open>The three hypotheses of the amended C9 hold in the concrete environment.\<close>

theorem qr_payloads_witness:
  "(\<exists>qr h. generateVerificationQR demo_env demo_data = Inr qr \<and>
      createDocumentHash demo_env PDFDocument_create demo_data = Inr h) \<and>
   (\<exists>sealed w'. wrapWithSecurity demo_env demo_cfg demo_doc demo_world = Inr (sealed, w') \<and>
      get_prop sealed ''qrCode'' = Inr JUndef) \<and>
   (\<exists>out w' v qr2. finalizeDocument demo_env securityConfig PDFDocument_create demo_data
        demo_anchor demo_world = Inr (out, w') \<and>
      get_prop out ''verification'' = Inr v \<and> get_prop v ''qrCode'' = Inr (JBytes qr2))"
proof -
  have "\<exists>qr. generateVerificationQR demo_env demo_data = Inr qr"
    by (simp add: generateVerificationQR_def demo_defs step_defs)
  then obtain qr where a: "generateVerificationQR demo_env demo_data = Inr qr" ..
  from demo_wrap obtain sealed w' where
    b: "wrapWithSecurity demo_env demo_cfg demo_doc demo_world = Inr (sealed, w')"
    by blast
  from demo_finalize obtain out w'' where
    c: "finalizeDocument demo_env securityConfig PDFDocument_create demo_data
        demo_anchor demo_world = Inr (out, w'')"
    by blast
  from qr_payloads [of demo_env demo_data qr PDFDocument_create demo_cfg demo_doc demo_world
      sealed w' securityConfig PDFDocument_create demo_data demo_anchor demo_world out w''] a b c
  show ?thesis by blast
qed

subsection \<open>Decimal text\<close>

text \<open>
  The decimal text of a number has no blank in it and determines the number, so the last
  blank of a microprint text separates the document number from the clock reading.
\<close>

declare show_nat.simps [simp del]

lemma of_char_digit_char: "d < 10 \<Longrightarrow> of_char (digit_char d) = (48 + d :: nat)"
  by (simp add: digit_char_def)

lemma digit_char_inj:
  assumes "a < 10" and "b < 10" and "digit_char a = digit_char b"
  shows "a = b"
proof -
  from assms(3) have "(of_char (digit_char a) :: nat) = of_char (digit_char b)"
    by (rule arg_cong)
  then show ?thesis by (simp add: of_char_digit_char assms(1,2))
qed

lemma digit_char_not:
  assumes "d < 10"
  shows "digit_char d \<noteq> CHR '' '' \<and> digit_char d \<noteq> CHR ''-''"
proof -
  have "(of_char (digit_char d) :: nat) \<noteq> of_char (CHR '' '')"
    and "(of_char (digit_char d) :: nat) \<noteq> of_char (CHR ''-'')"
    by (simp_all add: of_char_digit_char assms)
  then show ?thesis by (metis)
qed

lemma show_nat_small: "n < 10 \<Longrightarrow> show_nat n = [digit_char n]"
  by (subst show_nat.simps) simp

lemma show_nat_large:
  "\<not> n < 10 \<Longrightarrow> show_nat n = show_nat (n div 10) @ [digit_char (n mod 10)]"
  by (subst show_nat.simps) simp

lemma show_nat_nonempty: "show_nat n \<noteq> []"
  by (cases "n < 10") (simp_all add: show_nat_small show_nat_large)

lemma show_nat_chars: "c \<in> set (show_nat n) \<Longrightarrow> c \<noteq> CHR '' '' \<and> c \<noteq> CHR ''-''"
proof (induction n rule: show_nat.induct)
  case (1 n)
  show ?case
  proof (cases "n < 10")
    case True
    with "1.prems" have "c = digit_char n" by (simp add: show_nat_small)
    with digit_char_not [OF True] show ?thesis by simp
  next
    case False
    with "1.prems" have "c = digit_char (n mod 10) \<or> c \<in> set (show_nat (n div 10))"
      by (simp add: show_nat_large)
    then show ?thesis
    proof
      assume "c = digit_char (n mod 10)"
      with digit_char_not [of "n mod 10"] show ?thesis by simp
    next
      assume "c \<in> set (show_nat (n div 10))"
      with "1.IH" [OF False] show ?thesis .
    qed
  qed
qed

lemma show_nat_inj: "show_nat n = show_nat m \<Longrightarrow> n = m"
proof (induction n arbitrary: m rule: show_nat.induct)
  case (1 n)
  show ?case
  proof (cases "n < 10")
    case n: True
    show ?thesis
    proof (cases "m < 10")
      case True
      with n "1.prems" show ?thesis
        by (simp add: show_nat_small digit_char_inj)
    next
      case False
      with n "1.prems" have "[digit_char n] = show_nat (m div 10) @ [digit_char (m mod 10)]"
        by (simp add: show_nat_small show_nat_large)
      with show_nat_nonempty [of "m div 10"] show ?thesis by simp
    qed
  next
    case n: False
    show ?thesis
    proof (cases "m < 10")
      case True
      with n "1.prems" have "show_nat (n div 10) @ [digit_char (n mod 10)] = [digit_char m]"
        by (simp add: show_nat_small show_nat_large)
      with show_nat_nonempty [of "n div 10"] show ?thesis by simp
    next
      case False
      with n "1.prems" have
        "show_nat (n div 10) @ [digit_char (n mod 10)] = show_nat (m div 10) @ [digit_char (m mod 10)]"
        by (simp add: show_nat_large)
      then have a: "show_nat (n div 10) = show_nat (m div 10)"
        and b: "digit_char (n mod 10) = digit_char (m mod 10)" by simp_all
      from "1.IH" [OF n a] have "n div 10 = m div 10" .
      moreover from b have "n mod 10 = m mod 10" by (simp add: digit_char_inj)
      ultimately show ?thesis by (metis div_mult_mod_eq)
    qed
  qed
qed

lemma show_int_chars: "CHR '' '' \<notin> set (show_int i)"
  using show_nat_chars by (auto simp: show_int_def)

lemma show_int_inj: "show_int i = show_int j \<Longrightarrow> i = j"
proof -
  assume eq: "show_int i = show_int j"
  have hd: "\<And>n. hd (show_nat n) \<noteq> CHR ''-''"
    using show_nat_chars show_nat_nonempty by (metis hd_in_set)
  have ne: "\<And>n k. CHR ''-'' # show_nat n \<noteq> show_nat k"
    using hd by (metis list.sel(1))
  show ?thesis
  proof (cases "i < 0")
    case i: True
    show ?thesis
    proof (cases "j < 0")
      case True
      with i eq have "nat (- i) = nat (- j)" by (simp add: show_int_def show_nat_inj)
      with i True show ?thesis by simp
    next
      case False
      with i eq ne show ?thesis by (simp add: show_int_def)
    qed
  next
    case i: False
    show ?thesis
    proof (cases "j < 0")
      case True
      with i eq ne [of "nat (- j)" "nat i"] show ?thesis by (simp add: show_int_def)
    next
      case False
      with i eq have "nat i = nat j" by (simp add: show_int_def show_nat_inj)
      with i False show ?thesis by simp
    qed
  qed
qed

lemma split_at_last: "c \<notin> set s1 \<Longrightarrow> c \<notin> set s2 \<Longrightarrow> a @ c # s1 = b @ c # s2 \<Longrightarrow> a = b \<and> s1 = s2"
proof (induction a arbitrary: b)
  case Nil
  then show ?case by (cases b) auto
next
  case (Cons x a)
  then show ?case by (cases b) auto
qed

text \<open>
  \<^verbatim>\<open>DocumentService.generateMicroprint\<close> renders a text made of the document number and
  the clock reading: two texts rendered at different times differ. (A clock reading is far
  below the magnitude from which JavaScript prints a number with an exponent.)
\<close>

lemma microprint_text_injective:
  assumes "\<bar>t1\<bar> < 10 ^ 21" and "\<bar>t2\<bar> < 10 ^ 21"
    and "microprint_text e n1 t1 = microprint_text e n2 t2"
  shows "t1 = t2 \<and> js_String e n1 = js_String e n2"
proof -
  from assms have
    "js_String e n1 @ CHR '' '' # show_int t1 = js_String e n2 @ CHR '' '' # show_int t2"
    by (simp add: microprint_text_def)
  from split_at_last [OF show_int_chars show_int_chars this] show ?thesis
    by (simp add: show_int_inj)
qed

lemma generateMicroprint_Inr:
  assumes "generateMicroprint e d w = Inr (v, w')"
  shows "\<exists>documentNumber buf. get_prop d ''documentNumber'' = Inr documentNumber \<and>
           sharp_toBuffer e (microprint_text e documentNumber (clock w 0)) = Inr buf \<and> v = JBytes buf"
  using assms unfolding generateMicroprint_def
  by (auto simp: bindE_eq_Inr Let_def split_def Date_now_def)

subsection \<open>Microprint\<close>

text \<open>
  Claim C8: the microprint payload incorporates the document's number and a timestamp, so
  that two documents made at different times never have the same payload. The feature
  generator of \<^verbatim>\<open>EnhancedDocumentService\<close> misses it: \<^verbatim>\<open>addMicroprinting\<close> returns the
  same payload, \<^verbatim>\<open>'microprint_data'\<close>, for every document and every request.
\<close>

theorem enhanced_microprint_static:
  "addMicroprinting doc1 d1 = addMicroprinting doc2 d2 \<and>
   feature_data (addMicroprinting doc1 d1) = JStr ''microprint_data''"
  by (simp add: addMicroprinting_def)

subsection \<open>Feature generation\<close>

text \<open>
  Claim C7: for every configuration, \<^verbatim>\<open>addAdvancedSecurity\<close> returns the features whose
  flag is set, in the order watermark, hologram, microprint, UV, RFID, and nothing for a
  flag that is not set: a feature of a kind is in the list exactly if its flag is set, no
  kind occurs twice, and no other kind occurs.
\<close>

theorem addAdvancedSecurity_features:
  assumes "fs = addAdvancedSecurity sc doc d"
  shows "fs = map snd (filter fst
            [(watermark sc, addDynamicWatermark doc), (hologram sc, addHolographicElement doc),
             (microprint sc, addMicroprinting doc d), (uvFeatures sc, addUVFeatures doc),
             (rfidChip sc, addRFIDData doc d)]) \<and>
         (''watermark'' \<in> feature_type ` set fs) = watermark sc \<and>
         (''hologram'' \<in> feature_type ` set fs) = hologram sc \<and>
         (''microprint'' \<in> feature_type ` set fs) = microprint sc \<and>
         (''uv'' \<in> feature_type ` set fs) = uvFeatures sc \<and>
         (''rfid'' \<in> feature_type ` set fs) = rfidChip sc \<and>
         feature_type ` set fs \<subseteq> {''watermark'', ''hologram'', ''microprint'', ''uv'', ''rfid''} \<and>
         distinct (map feature_type fs)"
  unfolding assms addAdvancedSecurity_def Let_def
  by (simp add: addDynamicWatermark_def addHolographicElement_def addMicroprinting_def
      addUVFeatures_def addRFIDData_def)

text \<open>C7 at a configuration with the hologram and the RFID chip switched off.\<close>

theorem addAdvancedSecurity_features_witness:
  "map feature_type
     (addAdvancedSecurity (securityConfig\<lparr>hologram := False, rfidChip := False\<rparr>)
        PDFDocument_create demo_data) = [''watermark'', ''microprint'', ''uv'']"
  using addAdvancedSecurity_features [OF refl,
      of "securityConfig\<lparr>hologram := False, rfidChip := False\<rparr>" PDFDocument_create demo_data]
  by (simp add: securityConfig_def addDynamicWatermark_def addHolographicElement_def
      addMicroprinting_def addUVFeatures_def addRFIDData_def)

subsection \<open>Biometrics\<close>

text \<open>
  The key that unwraps the envelope key is \<^verbatim>\<open>serviceConfig.documents.pki.privateKey\<close>;
  \<^verbatim>\<open>EnhancedDocumentService\<close> encrypts biometrics under the master key, with its own IV,
  as \<open>IV || tag || ciphertext\<close>.
\<close>

lemma verifyDocument_unwraps_with_pki_key:
  assumes "get_prop x ''key'' = Inr k" and "privateDecrypt e (pki_privateKey cfg) k = Inl err"
  shows "verifyDocument_try e cfg x = Inl err"
  using assms by (simp add: verifyDocument_try_def)

lemma encryptBiometricData_Inr:
  assumes "encryptBiometricData e cfg bio w = Inr (out, w')"
  shows "\<exists>pt key iv ct. bytes_like (JSON_stringify e bio) = Inr pt \<and>
           key = from_hex (masterKey cfg) \<and> length key = 32 \<and> iv = map (rnd w) [0..<16] \<and>
           ct = gcm_ctr e key iv pt \<and> out = iv @ gcm_tag e key iv ct @ ct"
  using assms unfolding encryptBiometricData_def
  by (auto simp: bindE_eq_Inr randomBytes_def Let_def split_def createCipheriv_def
      cipher_update_def cipher_final_def getAuthTag_def split: if_splits)

text \<open>
  Claim C5: biometrics are encrypted under a master key distinct from the envelope key and
  from the key pair that wraps it. In \<^verbatim>\<open>DocumentService.addBiometricData\<close> they are not:
  the attachment is the result of \<^verbatim>\<open>privateEncrypt\<close> under the private key of that very
  key pair, and the master key has no influence on it.
\<close>

theorem biometrics_under_pki_key:
  assumes "addBiometricData e cfg doc bio = Inr doc'"
  shows "(\<exists>plain c. bytes_like (JSON_stringify e bio) = Inr plain \<and>
            privateEncrypt e (pki_privateKey cfg) plain = Inr c \<and>
            attachments doc' = attachments doc @ [(''biometrics.dat'', c)]) \<and>
         addBiometricData e (cfg\<lparr>security_biometric := k\<rparr>) doc bio = Inr doc'"
  using assms unfolding addBiometricData_def
  by (auto simp: bindE_eq_Inr attach_def)

text \<open>A concrete run of \<^verbatim>\<open>addBiometricData\<close>, with two different master keys.\<close>

theorem biometrics_under_pki_key_witness:
  "\<exists>doc' c. addBiometricData demo_env demo_cfg PDFDocument_create (JStr ''fingerprint'') = Inr doc' \<and>
     privateEncrypt demo_env (pki_privateKey demo_cfg) (bytes_of_string ''fingerprint'') = Inr c \<and>
     attachments doc' = [(''biometrics.dat'', c)] \<and>
     addBiometricData demo_env (demo_cfg\<lparr>security_biometric := ''ff''\<rparr>) PDFDocument_create
       (JStr ''fingerprint'') = Inr doc'"
proof -
  have g: "addBiometricData demo_env demo_cfg PDFDocument_create (JStr ''fingerprint'') =
      Inr (attach PDFDocument_create (2 # bytes_of_string ''fingerprint'') ''biometrics.dat'')"
    by (simp add: addBiometricData_def demo_env_def demo_stringify_def bytes_like_def)
  from biometrics_under_pki_key [OF g, of "''ff''"] g show ?thesis
    by (simp add: demo_env_def demo_stringify_def bytes_like_def PDFDocument_create_def attach_def)
qed



subsection \<open>Anchoring when the backend is unavailable\<close>

text \<open>
  Claim C6 says that with the anchoring backend unavailable the anchor record has a null
  reference and the metadata is flagged as pending. In a world whose backend is out of
  reach, the anchor record that \<^verbatim>\<open>addBlockchainVerification\<close> returns has a reference
  object with \<^verbatim>\<open>stored: true\<close>, and the metadata that \<^verbatim>\<open>finalizeDocument\<close> returns has
  the keys \<^verbatim>\<open>issuedAt\<close>, \<^verbatim>\<open>issuer\<close> and \<^verbatim>\<open>documentType\<close> only.
\<close>

theorem anchor_offline_counterexample:
  "\<not> anchor_backend_up demo_world_offline \<and>
   field_of (field_of (returned (addBlockchainVerification demo_env PDFDocument_create demo_data
      demo_world_offline)) ''reference'') ''stored'' = Inr (JBool True) \<and>
   map_sum id Object_keys (field_of (returned (finalizeDocument demo_env securityConfig
      PDFDocument_create demo_data demo_anchor demo_world_offline)) ''metadata'') =
     Inr [''issuedAt'', ''issuer'', ''documentType'']"
  by (simp add: addBlockchainVerification_def storeOnBlockchain_def createDocumentHash_def
      finalizeDocument_def enhanced_generateVerificationQR_def securityConfig_def
      demo_defs step_defs returned_def field_of_def Object_keys_def)

text \<open>
  Claim C6, amended: the code contacts no anchoring backend. \<^verbatim>\<open>storeOnBlockchain\<close> is a
  local stub that always answers \<^verbatim>\<open>{stored: true, timestamp, reference: 'blockchain_ref_' + hash}\<close>,
  whatever the state of the backend. Once the hash of the request is computed,
  \<^verbatim>\<open>addBlockchainVerification\<close> returns the anchor record with the hash, that reference
  (never null) and a timestamp read from the local clock; and the metadata that
  \<^verbatim>\<open>finalizeDocument\<close> returns has exactly the keys \<^verbatim>\<open>issuedAt\<close>, \<^verbatim>\<open>issuer\<close> and
  \<^verbatim>\<open>documentType\<close>, with no pending flag.
\<close>

theorem anchor_never_pending:
  "fst (storeOnBlockchain h w) =
     JObj [(''stored'', JBool True), (''timestamp'', JNum (clock w 0)),
           (''reference'', JStr (''blockchain_ref_'' @ h))] \<and>
   (createDocumentHash e doc d = Inr h \<longrightarrow>
      returned (addBlockchainVerification e doc d w) = Inr (JObj
        [(''hash'', JStr h),
         (''reference'', JObj [(''stored'', JBool True), (''timestamp'', JNum (clock w 0)),
                               (''reference'', JStr (''blockchain_ref_'' @ h))]),
         (''timestamp'', JNum (clock w 1))])) \<and>
   (addBlockchainVerification e doc d w = Inr (anchorRecord, w') \<longrightarrow>
      (\<exists>r. get_prop anchorRecord ''reference'' = Inr r \<and> r \<noteq> JNull \<and>
           get_prop r ''stored'' = Inr (JBool True))) \<and>
   (finalizeDocument e sc doc d anchorRecord2 w2 = Inr (out, w2') \<longrightarrow>
      (\<exists>md. get_prop out ''metadata'' = Inr md \<and>
            Object_keys md = [''issuedAt'', ''issuer'', ''documentType'']))"
proof (intro conjI impI)
  show "fst (storeOnBlockchain h w) =
     JObj [(''stored'', JBool True), (''timestamp'', JNum (clock w 0)),
           (''reference'', JStr (''blockchain_ref_'' @ h))]"
    by (rule storeOnBlockchain_answer)
next
  assume "createDocumentHash e doc d = Inr h"
  then show "returned (addBlockchainVerification e doc d w) = Inr (JObj
        [(''hash'', JStr h),
         (''reference'', JObj [(''stored'', JBool True), (''timestamp'', JNum (clock w 0)),
                               (''reference'', JStr (''blockchain_ref_'' @ h))]),
         (''timestamp'', JNum (clock w 1))])"
    by (simp add: addBlockchainVerification_eq)
next
  assume a: "addBlockchainVerification e doc d w = Inr (anchorRecord, w')"
  show "\<exists>r. get_prop anchorRecord ''reference'' = Inr r \<and> r \<noteq> JNull \<and>
           get_prop r ''stored'' = Inr (JBool True)"
  proof (cases "createDocumentHash e doc d")
    case (Inl err)
    with a show ?thesis by (simp add: addBlockchainVerification_def)
  next
    case (Inr h')
    with a have "anchorRecord = JObj
        [(''hash'', JStr h'),
         (''reference'', JObj [(''stored'', JBool True), (''timestamp'', JNum (clock w 0)),
                               (''reference'', JStr (''blockchain_ref_'' @ h'))]),
         (''timestamp'', JNum (clock w 1))]"
      by (simp add: addBlockchainVerification_def storeOnBlockchain_def Date_now_def
          split_def Let_def)
    then show ?thesis by (simp add: get_prop_def)
  qed
next
  assume "finalizeDocument e sc doc d anchorRecord2 w2 = Inr (out, w2')"
  from finalizeDocument_Inr [OF this] obtain qr w1 documentType where
    "enhanced_generateVerificationQR e d anchorRecord2 w2 = Inr (qr, w1)" and
    "get_prop d ''documentType'' = Inr documentType" and
    out: "out = JObj
       ([(''document'', JBytes (pdf_save e doc)),
         (''verification'', JObj
            [(''blockchain'', anchorRecord2), (''qrCode'', JBytes qr),
             (''securityFeatures'', config_object sc)]),
         (''metadata'', JObj
            [(''issuedAt'', JStr (toISOString e (clock w1 0))), (''issuer'', JStr ''DHA-RSA''),
             (''documentType'', documentType)])] @
        (if quantumEncryption sc then [(''quantumProtected'', JBool True)] else []))"
    by blast
  show "\<exists>md. get_prop out ''metadata'' = Inr md \<and>
            Object_keys md = [''issuedAt'', ''issuer'', ''documentType'']"
    by (simp add: out get_prop_def Object_keys_def)
qed

text \<open>The hypotheses of the amended C6 hold in the world whose backend is out of reach.\<close>

theorem anchor_never_pending_witness:
  "\<not> anchor_backend_up demo_world_offline \<and>
   (\<exists>h anchorRecord w' r.
      createDocumentHash demo_env PDFDocument_create demo_data = Inr h \<and>
      addBlockchainVerification demo_env PDFDocument_create demo_data demo_world_offline =
        Inr (anchorRecord, w') \<and>
      get_prop anchorRecord ''reference'' = Inr r \<and> r \<noteq> JNull) \<and>
   (\<exists>out w' md.
      finalizeDocument demo_env securityConfig PDFDocument_create demo_data demo_anchor
        demo_world_offline = Inr (out, w') \<and>
      get_prop out ''metadata'' = Inr md \<and>
      Object_keys md = [''issuedAt'', ''issuer'', ''documentType''])"
proof -
  have off: "\<not> anchor_backend_up demo_world_offline"
    by (simp add: demo_world_offline_def)
  have "\<exists>h. createDocumentHash demo_env PDFDocument_create demo_data = Inr h"
    by (simp add: createDocumentHash_def demo_defs step_defs)
  then obtain h where h: "createDocumentHash demo_env PDFDocument_create demo_data = Inr h" ..
  then have "\<exists>anchorRecord w'. addBlockchainVerification demo_env PDFDocument_create demo_data
      demo_world_offline = Inr (anchorRecord, w')"
    by (simp add: addBlockchainVerification_def split_def Let_def)
  then obtain anchorRecord w' where
    a: "addBlockchainVerification demo_env PDFDocument_create demo_data demo_world_offline =
        Inr (anchorRecord, w')"
    by blast
  from demo_finalize obtain out w'' where
    f: "finalizeDocument demo_env securityConfig PDFDocument_create demo_data demo_anchor
        demo_world_offline = Inr (out, w'')"
    by blast
  from anchor_never_pending [of h demo_world_offline demo_env PDFDocument_create demo_data
      anchorRecord w' securityConfig demo_anchor demo_world_offline out w''] off h a f
  show ?thesis by blast
qed

subsection \<open>The security configuration\<close>




end
